theory Spec2Isabelle
  imports Main "HOL-Library.Word"
begin

unbundle bit_operations_syntax

section \<open>The operating system as the file resource sees it\<close>

text \<open>
  The file resource of \<^verbatim>\<open>resource/file.go\<close> talks to the operating system through
  \<^verbatim>\<open>os.Stat\<close>, \<^verbatim>\<open>os.Create\<close>, \<^verbatim>\<open>os.Chmod\<close>, \<^verbatim>\<open>os.Remove\<close>, the user database of
  \<^verbatim>\<open>os/user\<close> and two helpers of the repository (\<^verbatim>\<open>fileOwner\<close>, \<^verbatim>\<open>setFileOwner\<close>).
  The world below is the part of the machine those calls read and write.
\<close>

subsection \<open>Errors and outcomes\<close>

datatype errno = ENOENT | EACCES | EPERM | EISDIR | ENOTDIR | ENOTEMPTY | EIO

text \<open>
  Go's \<^verbatim>\<open>error\<close> values: \<^verbatim>\<open>*os.PathError{Op, Path, Err}\<close>, the errors of \<^verbatim>\<open>os/user\<close>,
  what \<^verbatim>\<open>fmt.Errorf\<close> builds, and a decoding error of the declaration.
\<close>

datatype error =
    PathError string string errno
  | UnknownUserIdError nat
  | UnknownGroupIdError nat
  | UnknownUserError string
  | UnknownGroupError string
  | ErrorString string
  | DecodeError string

text \<open>A call either returns or panics (a nil dereference at run time).\<close>

datatype 'a outcome = Returns 'a | Panics

text \<open>\<^verbatim>\<open>os.IsNotExist(err)\<close>: false for nil, true for an error that wraps ENOENT.\<close>

fun IsNotExist :: "error option \<Rightarrow> bool" where
  "IsNotExist (Some (PathError _ _ ENOENT)) = True"
| "IsNotExist _ = False"

subsection \<open>File modes\<close>

text \<open>
  \<^verbatim>\<open>os.FileMode\<close> is a \<^verbatim>\<open>uint32\<close>: the nine permission bits at the bottom, the type and
  special bits at the top. The octal constants of the source are written in decimal:
  0777 = 511, 0666 = 438, 0644 = 420, 0640 = 416.
\<close>

type_synonym FileMode = "32 word"

definition ModeDir :: FileMode where "ModeDir = push_bit 31 1"
definition ModeSetuid :: FileMode where "ModeSetuid = push_bit 23 1"
definition ModeSetgid :: FileMode where "ModeSetgid = push_bit 22 1"
definition ModeSticky :: FileMode where "ModeSticky = push_bit 20 1"
definition ModePerm :: FileMode where "ModePerm = 511"

definition Perm :: "FileMode \<Rightarrow> FileMode" where
  "Perm m = m AND ModePerm"

definition IsDir :: "FileMode \<Rightarrow> bool" where
  "IsDir m = (m AND ModeDir \<noteq> 0)"

text \<open>
  The bits \<^verbatim>\<open>os.Chmod\<close> can set: \<^verbatim>\<open>syscallMode\<close> passes the permission bits and the
  setuid, setgid and sticky bits of the Go mode, and nothing else.
\<close>

definition chmodMask :: FileMode where
  "chmodMask = ModePerm OR ModeSetuid OR ModeSetgid OR ModeSticky"

subsection \<open>The world\<close>

text \<open>
  A node is what \<^verbatim>\<open>os.Stat\<close> reports of a path (also the \<^verbatim>\<open>os.FileInfo\<close> snapshot
  handed back), with the MD5 digest of its content. A path is vacant (nothing there, the
  directory above exists), blocked (resolving the path fails with the given errno: a
  missing or unsearchable directory above), or holds a node. Making or removing the
  entry of a path can be refused with an errno of its own (\<open>dir_refuses\<close>): the
  directory above is not writable by the process, or it is sticky and the node belongs
  to someone else, or the node is a directory that is not empty.
\<close>

record fnode =
  mode :: FileMode
  uid :: nat
  gid :: nat
  md5 :: string

type_synonym FileInfo = fnode

datatype fs_entry = Vacant | Blocked errno | Entry fnode

record world =
  fs :: "string \<Rightarrow> fs_entry"
  dir_refuses :: "string \<Rightarrow> errno option"
  passwd :: "(string \<times> nat \<times> nat) list"
  groups :: "(string \<times> nat) list"
  proc_uid :: nat
  proc_gid :: nat
  proc_groups :: "nat list"
  umask :: FileMode

text \<open>The digest of the empty content, which a truncated or new file has.\<close>

definition md5_empty :: string where
  "md5_empty = ''d41d8cd98f00b204e9800998ecf8427e''"

subsection \<open>The calls of package os\<close>

definition os_Stat :: "world \<Rightarrow> string \<Rightarrow> FileInfo option \<times> error option" where
  "os_Stat w p =
     (case fs w p of
        Vacant \<Rightarrow> (None, Some (PathError ''stat'' p ENOENT))
      | Blocked e \<Rightarrow> (None, Some (PathError ''stat'' p e))
      | Entry n \<Rightarrow> (Some n, None))"

text \<open>Who may change the mode of a node: the superuser and the owner.\<close>

definition may_change :: "world \<Rightarrow> fnode \<Rightarrow> bool" where
  "may_change w n = (proc_uid w = 0 \<or> proc_uid w = uid n)"

text \<open>
  Who may open a node for reading and writing: the superuser, and otherwise whoever the
  permission bits of its class allow both (owner 0600 = 384, group 0060 = 48, others
  0006 = 6).
\<close>

definition may_open_rdwr :: "world \<Rightarrow> fnode \<Rightarrow> bool" where
  "may_open_rdwr w n =
     (proc_uid w = 0 \<or>
      (if proc_uid w = uid n then mode n AND 384 = 384
       else if gid n = proc_gid w \<or> gid n \<in> set (proc_groups w) then mode n AND 48 = 48
       else mode n AND 6 = 6))"

text \<open>
  \<^verbatim>\<open>os.Create\<close> is \<^verbatim>\<open>OpenFile(name, O_RDWR|O_CREATE|O_TRUNC, 0666)\<close>: a new file gets
  mode 0666 less the umask and the identity of the process, unless the directory refuses
  the entry; an existing file is truncated if the process may open it for reading and
  writing; a directory is refused.
\<close>

definition os_Create :: "world \<Rightarrow> string \<Rightarrow> world \<times> error option" where
  "os_Create w p =
     (case fs w p of
        Vacant \<Rightarrow>
          (case dir_refuses w p of
             Some e \<Rightarrow> (w, Some (PathError ''open'' p e))
           | None \<Rightarrow>
               (w\<lparr>fs := (fs w)(p := Entry \<lparr>mode = 438 AND NOT (umask w),
                      uid = proc_uid w, gid = proc_gid w, md5 = md5_empty\<rparr>)\<rparr>, None))
      | Blocked e \<Rightarrow> (w, Some (PathError ''open'' p e))
      | Entry n \<Rightarrow>
          (if IsDir (mode n) then (w, Some (PathError ''open'' p EISDIR))
           else if may_open_rdwr w n
             then (w\<lparr>fs := (fs w)(p := Entry (n\<lparr>md5 := md5_empty\<rparr>))\<rparr>, None)
           else (w, Some (PathError ''open'' p EACCES))))"

definition os_Chmod :: "world \<Rightarrow> string \<Rightarrow> FileMode \<Rightarrow> world \<times> error option" where
  "os_Chmod w p m =
     (case fs w p of
        Vacant \<Rightarrow> (w, Some (PathError ''chmod'' p ENOENT))
      | Blocked e \<Rightarrow> (w, Some (PathError ''chmod'' p e))
      | Entry n \<Rightarrow>
          (if may_change w n
             then (w\<lparr>fs := (fs w)(p := Entry (n\<lparr>mode :=
                     (mode n AND NOT chmodMask) OR (m AND chmodMask)\<rparr>))\<rparr>, None)
           else (w, Some (PathError ''chmod'' p EPERM))))"

text \<open>
  A change of owner clears the setuid bit of a node that is not a directory, and its
  setgid bit when the node is executable by its group (0010 = 8); the other bits of the
  mode stay.
\<close>

definition chown_mode :: "FileMode \<Rightarrow> FileMode" where
  "chown_mode m =
     (if IsDir m then m
      else m AND NOT (ModeSetuid OR (if m AND 8 = 0 then 0 else ModeSetgid)))"

text \<open>
  \<^verbatim>\<open>os.Chown\<close>: the superuser may give a file to anyone; the owner may keep the user and
  pick a group the process belongs to.
\<close>

definition os_Chown :: "world \<Rightarrow> string \<Rightarrow> nat \<Rightarrow> nat \<Rightarrow> world \<times> error option" where
  "os_Chown w p u g =
     (case fs w p of
        Vacant \<Rightarrow> (w, Some (PathError ''chown'' p ENOENT))
      | Blocked e \<Rightarrow> (w, Some (PathError ''chown'' p e))
      | Entry n \<Rightarrow>
          (if proc_uid w = 0 \<or>
              (proc_uid w = uid n \<and> u = uid n \<and> (g = proc_gid w \<or> g \<in> set (proc_groups w)))
             then (w\<lparr>fs := (fs w)(p := Entry (n\<lparr>mode := chown_mode (mode n),
                     uid := u, gid := g\<rparr>))\<rparr>, None)
           else (w, Some (PathError ''chown'' p EPERM))))"

text \<open>
  \<^verbatim>\<open>os.Remove\<close> unlinks the path (or removes the directory); nothing there is the error
  ENOENT, and a node stays when the directory refuses the removal.
\<close>

definition os_Remove :: "world \<Rightarrow> string \<Rightarrow> world \<times> error option" where
  "os_Remove w p =
     (case fs w p of
        Vacant \<Rightarrow> (w, Some (PathError ''remove'' p ENOENT))
      | Blocked e \<Rightarrow> (w, Some (PathError ''remove'' p e))
      | Entry n \<Rightarrow>
          (case dir_refuses w p of
             Some e \<Rightarrow> (w, Some (PathError ''remove'' p e))
           | None \<Rightarrow> (w\<lparr>fs := (fs w)(p := Vacant)\<rparr>, None)))"

subsection \<open>The user database\<close>

record User =
  Username :: string
  Uid :: nat
  Gid :: nat

fun lookup_uid :: "(string \<times> nat \<times> nat) list \<Rightarrow> nat \<Rightarrow> User option" where
  "lookup_uid [] u = None"
| "lookup_uid ((name, u', g) # es) u =
     (if u' = u then Some \<lparr>Username = name, Uid = u', Gid = g\<rparr> else lookup_uid es u)"

fun lookup_user :: "(string \<times> nat \<times> nat) list \<Rightarrow> string \<Rightarrow> User option" where
  "lookup_user [] s = None"
| "lookup_user ((name, u, g) # es) s =
     (if name = s then Some \<lparr>Username = name, Uid = u, Gid = g\<rparr> else lookup_user es s)"

fun lookup_gid :: "(string \<times> nat) list \<Rightarrow> nat \<Rightarrow> string option" where
  "lookup_gid [] g = None"
| "lookup_gid ((name, g') # es) g = (if g' = g then Some name else lookup_gid es g)"

fun lookup_group :: "(string \<times> nat) list \<Rightarrow> string \<Rightarrow> nat option" where
  "lookup_group [] s = None"
| "lookup_group ((name, g) # es) s = (if name = s then Some g else lookup_group es s)"

definition user_Current :: "world \<Rightarrow> error + User" where
  "user_Current w =
     (case lookup_uid (passwd w) (proc_uid w) of
        None \<Rightarrow> Inl (UnknownUserIdError (proc_uid w))
      | Some u \<Rightarrow> Inr u)"

definition user_LookupGroupId :: "world \<Rightarrow> nat \<Rightarrow> error + string" where
  "user_LookupGroupId w g =
     (case lookup_gid (groups w) g of
        None \<Rightarrow> Inl (UnknownGroupIdError g)
      | Some name \<Rightarrow> Inr name)"

subsection \<open>Paths and formatting\<close>

text \<open>
  \<^verbatim>\<open>filepath.Join\<close> on Unix: the elements from the first non-empty one on are joined
  with a slash and the result is cleaned (\<^verbatim>\<open>filepath.Clean\<close>: no empty and no dot
  components, a double dot removes the component before it, except at the start of a
  relative path, where it stays, and of a rooted path, where it is dropped).
\<close>

fun split_slash :: "string \<Rightarrow> string \<Rightarrow> string list" where
  "split_slash acc [] = [rev acc]"
| "split_slash acc (c # cs) =
     (if c = CHR ''/'' then rev acc # split_slash [] cs else split_slash (c # acc) cs)"

fun clean_comps :: "bool \<Rightarrow> string list \<Rightarrow> string list \<Rightarrow> string list" where
  "clean_comps rooted stack [] = rev stack"
| "clean_comps rooted stack (c # cs) =
     (if c = [] \<or> c = ''.'' then clean_comps rooted stack cs
      else if c = ''..'' then
        (case stack of
           [] \<Rightarrow> clean_comps rooted (if rooted then [] else [c]) cs
         | t # ts \<Rightarrow>
             if t = ''..'' then clean_comps rooted (c # stack) cs
             else clean_comps rooted ts cs)
      else clean_comps rooted (c # stack) cs)"

fun join_slash :: "string list \<Rightarrow> string" where
  "join_slash [] = []"
| "join_slash [c] = c"
| "join_slash (c # d # cs) = c @ ''/'' @ join_slash (d # cs)"

definition filepath_Clean :: "string \<Rightarrow> string" where
  "filepath_Clean p =
     (if p = [] then ''.''
      else (let rooted = (hd p = CHR ''/'');
                body = join_slash (clean_comps rooted [] (split_slash [] p));
                r = (if rooted then ''/'' @ body else body)
            in if r = [] then ''.'' else r))"

definition filepath_Join :: "string list \<Rightarrow> string" where
  "filepath_Join elem =
     (case dropWhile (\<lambda>e. e = []) elem of
        [] \<Rightarrow> []
      | e # es \<Rightarrow> filepath_Clean (join_slash (e # es)))"

text \<open>
  The verb \<^verbatim>\<open>%#o\<close> of package fmt on a Go \<^verbatim>\<open>int\<close>: the octal digits of the absolute
  value after a leading zero (none for the value zero), a minus sign before it.
\<close>

fun oct_digits :: "nat \<Rightarrow> string" where
  "oct_digits n =
     (if n < 8 then [''01234567'' ! n] else oct_digits (n div 8) @ [''01234567'' ! (n mod 8)])"

declare oct_digits.simps [simp del]

definition fmt_sharp_o :: "64 word \<Rightarrow> string" where
  "fmt_sharp_o m =
     (let v = sint m in
      if v = 0 then ''0''
      else if v < 0 then ''-0'' @ oct_digits (nat (- v))
      else ''0'' @ oct_digits (nat v))"

section \<open>The file resource\<close>

subsection \<open>Data\<close>

text \<open>
  Modelled from the spec: the constants \<^verbatim>\<open>StateUnknown\<close>, \<^verbatim>\<open>StatePresent\<close> and
  \<^verbatim>\<open>StateAbsent\<close>, the records \<^verbatim>\<open>State\<close> and \<^verbatim>\<open>BaseResource\<close>, \<^verbatim>\<open>Options\<close> and the method
  \<^verbatim>\<open>BaseResource.Printf\<close> are declared outside \<^verbatim>\<open>resource/file.go\<close>. A resource state
  is one of three distinct names, the state of a declaration a string field like the
  others; the result of Evaluate is \<^verbatim>\<open>{Current, Want, Update}\<close>; the base resource is
  \<^verbatim>\<open>{Title, Type, State}\<close>; the options carry a dry-run flag; \<^verbatim>\<open>Printf\<close> writes the
  formatted progress message to the writer, here the list of messages written so far.
\<close>

type_synonym ResourceState = string

definition StateUnknown :: ResourceState where "StateUnknown = ''unknown''"
definition StatePresent :: ResourceState where "StatePresent = ''present''"
definition StateAbsent :: ResourceState where "StateAbsent = ''absent''"

record State =
  Current :: ResourceState
  Want :: ResourceState
  Update :: bool

record Options =
  DryRun :: bool

record BaseResource =
  Title :: string
  Type :: string
  State :: ResourceState

definition Printf :: "string list \<Rightarrow> string \<Rightarrow> string list" where
  "Printf out s = out @ [s]"

definition fileResourceType :: string where "fileResourceType = ''file''"
definition fileResourceDesc :: string where "fileResourceDesc = ''manages files''"

text \<open>
  Modelled from the spec: package \<^verbatim>\<open>utils\<close> is not part of the source. A \<^verbatim>\<open>FileUtil\<close>
  wraps the path of a file; \<^verbatim>\<open>Mode\<close>, \<^verbatim>\<open>Owner\<close> and \<^verbatim>\<open>Md5\<close> read the mode bits, the
  owning user and group names and the content digest of that path and fail when the
  path cannot be read. The pointer \<^verbatim>\<open>dstFile\<close> may be nil, and a call through it then
  panics.
\<close>

type_synonym FileUtil = string

record FileResource = BaseResource +
  Path :: string
  Mode :: "64 word"
  Owner :: string
  Group :: string
  Source :: string
  dstFile :: "FileUtil option"

text \<open>\<^verbatim>\<open>os.FileMode(fr.Mode)\<close>: the conversion of a 64-bit \<^verbatim>\<open>int\<close> to \<^verbatim>\<open>uint32\<close> truncates.\<close>

definition FileMode_of :: "64 word \<Rightarrow> FileMode" where
  "FileMode_of m = ucast m"

record owner =
  owner_User :: string
  owner_Group :: string

text \<open>
  Modelled from the spec: \<^verbatim>\<open>fileOwner\<close> and \<^verbatim>\<open>setFileOwner\<close> are declared outside
  \<^verbatim>\<open>resource/file.go\<close>. The first resolves the names of the user and the group that own
  a file; the second resolves the declared names and changes the owner of the path. A
  name or an id that cannot be resolved is an error.
\<close>

definition fileOwner :: "world \<Rightarrow> FileInfo \<Rightarrow> error + owner" where
  "fileOwner w fi =
     (case lookup_uid (passwd w) (uid fi) of
        None \<Rightarrow> Inl (UnknownUserIdError (uid fi))
      | Some u \<Rightarrow>
          (case lookup_gid (groups w) (gid fi) of
             None \<Rightarrow> Inl (UnknownGroupIdError (gid fi))
           | Some g \<Rightarrow> Inr \<lparr>owner_User = Username u, owner_Group = g\<rparr>))"

definition setFileOwner :: "world \<Rightarrow> string \<Rightarrow> string \<Rightarrow> string \<Rightarrow> world \<times> error option" where
  "setFileOwner w p own grp =
     (case lookup_user (passwd w) own of
        None \<Rightarrow> (w, Some (UnknownUserError own))
      | Some u \<Rightarrow>
          (case lookup_group (groups w) grp of
             None \<Rightarrow> (w, Some (UnknownGroupError grp))
           | Some g \<Rightarrow> os_Chown w p (Uid u) g))"

definition NewFileUtil :: "string \<Rightarrow> FileUtil option" where
  "NewFileUtil p = Some p"

definition FileUtil_Mode :: "world \<Rightarrow> FileUtil option \<Rightarrow> (error + FileMode) outcome" where
  "FileUtil_Mode w f =
     (case f of
        None \<Rightarrow> Panics
      | Some p \<Rightarrow>
          (case fs w p of
             Vacant \<Rightarrow> Returns (Inl (PathError ''stat'' p ENOENT))
           | Blocked e \<Rightarrow> Returns (Inl (PathError ''stat'' p e))
           | Entry n \<Rightarrow> Returns (Inr (mode n))))"

definition FileUtil_Owner :: "world \<Rightarrow> FileUtil option \<Rightarrow> (error + owner) outcome" where
  "FileUtil_Owner w f =
     (case f of
        None \<Rightarrow> Panics
      | Some p \<Rightarrow>
          (case fs w p of
             Vacant \<Rightarrow> Returns (Inl (PathError ''stat'' p ENOENT))
           | Blocked e \<Rightarrow> Returns (Inl (PathError ''stat'' p e))
           | Entry n \<Rightarrow> Returns (fileOwner w n)))"

definition FileUtil_Md5 :: "world \<Rightarrow> FileUtil option \<Rightarrow> (error + string) outcome" where
  "FileUtil_Md5 w f =
     (case f of
        None \<Rightarrow> Panics
      | Some p \<Rightarrow>
          (case fs w p of
             Vacant \<Rightarrow> Returns (Inl (PathError ''open'' p ENOENT))
           | Blocked e \<Rightarrow> Returns (Inl (PathError ''open'' p e))
           | Entry n \<Rightarrow>
               if IsDir (mode n) then Returns (Inl (PathError ''read'' p EISDIR))
               else Returns (Inr (md5 n))))"

subsection \<open>The comparators\<close>

definition permissionsChanged :: "FileResource \<Rightarrow> world \<Rightarrow> (bool \<times> error option) outcome" where
  "permissionsChanged bfr w =
     (case FileUtil_Mode w (dstFile bfr) of
        Panics \<Rightarrow> Panics
      | Returns (Inl err) \<Rightarrow> Returns (False, Some err)
      | Returns (Inr m) \<Rightarrow> Returns (Perm m \<noteq> FileMode_of (Mode bfr), None))"

definition ownerChanged :: "FileResource \<Rightarrow> world \<Rightarrow> (bool \<times> error option) outcome" where
  "ownerChanged bfr w =
     (case FileUtil_Owner w (dstFile bfr) of
        Panics \<Rightarrow> Panics
      | Returns (Inl err) \<Rightarrow> Returns (False, Some err)
      | Returns (Inr own) \<Rightarrow>
          (if Owner bfr \<noteq> owner_User own \<or> Group bfr \<noteq> owner_Group own
             then Returns (True, None)
           else Returns (False, None)))"

definition contentChanged :: "FileResource \<Rightarrow> string \<Rightarrow> world \<Rightarrow> (bool \<times> error option) outcome" where
  "contentChanged bfr siteDir w =
     (if Source bfr = [] then Returns (False, None)
      else
        (let srcPath = filepath_Join [siteDir, ''data'', Source bfr];
             srcFile = NewFileUtil srcPath
         in case FileUtil_Md5 w srcFile of
              Panics \<Rightarrow> Panics
            | Returns (Inl err) \<Rightarrow> Returns (False, Some err)
            | Returns (Inr srcMd5) \<Rightarrow>
                (case FileUtil_Md5 w (dstFile bfr) of
                   Panics \<Rightarrow> Panics
                 | Returns (Inl err) \<Rightarrow> Returns (False, Some err)
                 | Returns (Inr dstMd5) \<Rightarrow> Returns (srcMd5 \<noteq> dstMd5, None))))"

subsection \<open>Construction\<close>

text \<open>
  The declaration is the parsed object handed to \<^verbatim>\<open>hcl.DecodeObject\<close>: each field of
  the schema is present with a value or absent, or the object does not decode at all.
  Decoding leaves a field that is absent at the zero value of its Go type.
\<close>

record decl =
  d_title :: "string option"
  d_type :: "string option"
  d_state :: "string option"
  d_path :: "string option"
  d_mode :: "64 word option"
  d_owner :: "string option"
  d_group :: "string option"
  d_source :: "string option"

datatype ObjectItem = Malformed string | Fields decl

definition or_zero :: "'a \<Rightarrow> 'a option \<Rightarrow> 'a" where
  "or_zero z v = (case v of None \<Rightarrow> z | Some x \<Rightarrow> x)"

definition hcl_DecodeObject :: "ObjectItem \<Rightarrow> error + FileResource" where
  "hcl_DecodeObject obj =
     (case obj of
        Malformed msg \<Rightarrow> Inl (DecodeError msg)
      | Fields d \<Rightarrow>
          Inr \<lparr>Title = or_zero [] (d_title d), Type = or_zero [] (d_type d),
               State = or_zero [] (d_state d), Path = or_zero [] (d_path d),
               Mode = or_zero 0 (d_mode d), Owner = or_zero [] (d_owner d),
               Group = or_zero [] (d_group d), Source = or_zero [] (d_source d),
               dstFile = None\<rparr>)"

text \<open>
  \<^verbatim>\<open>mergo.Merge(&dst, src)\<close> on two structs of one type: every exported field of the
  destination that holds the zero value of its type takes the value of the source, every
  other field stays. The unexported \<^verbatim>\<open>dstFile\<close> is not touched.
\<close>

definition merge_string :: "string \<Rightarrow> string \<Rightarrow> string" where
  "merge_string dst src = (if dst = [] then src else dst)"

definition merge_int :: "64 word \<Rightarrow> 64 word \<Rightarrow> 64 word" where
  "merge_int dst src = (if dst = 0 then src else dst)"

definition mergo_Merge :: "FileResource \<Rightarrow> FileResource \<Rightarrow> FileResource" where
  "mergo_Merge dst src =
     \<lparr>Title = merge_string (Title dst) (Title src),
      Type = merge_string (Type dst) (Type src),
      State = merge_string (State dst) (State src),
      Path = merge_string (Path dst) (Path src),
      Mode = merge_int (Mode dst) (Mode src),
      Owner = merge_string (Owner dst) (Owner src),
      Group = merge_string (Group dst) (Group src),
      Source = merge_string (Source dst) (Source src),
      dstFile = dstFile dst\<rparr>"

definition NewFileResource :: "world \<Rightarrow> string \<Rightarrow> ObjectItem \<Rightarrow> error + FileResource" where
  "NewFileResource w title obj =
     (case user_Current w of
        Inl err \<Rightarrow> Inl err
      | Inr currentUser \<Rightarrow>
          (case user_LookupGroupId w (Gid currentUser) of
             Inl err \<Rightarrow> Inl err
           | Inr currentGroup \<Rightarrow>
               (let defaultOwner = Username currentUser;
                    defaultGroup = currentGroup;
                    defaults = \<lparr>Title = title, Type = fileResourceType, State = StatePresent,
                                Path = title, Mode = 420, Owner = defaultOwner,
                                Group = defaultGroup, Source = [], dstFile = None\<rparr>
                in case hcl_DecodeObject obj of
                     Inl err \<Rightarrow> Inl err
                   | Inr fr \<Rightarrow> Inr (mergo_Merge fr defaults))))"

subsection \<open>Evaluate, Create, Delete, Update\<close>

text \<open>
  Each method takes the resource, the messages written to the writer so far, the
  options and the world. Evaluate only reads; the others hand back the writer and the
  world as they leave them, with the error they return.
\<close>

definition FileResource_Evaluate ::
    "FileResource \<Rightarrow> string list \<Rightarrow> Options \<Rightarrow> world \<Rightarrow> (State \<times> error option) outcome" where
  "FileResource_Evaluate fr out opts w =
     (let resourceState = \<lparr>Current = StateUnknown, Want = State fr, Update = False\<rparr>
      in case os_Stat w (Path fr) of
           (fi, err) \<Rightarrow>
             if IsNotExist err then Returns (resourceState\<lparr>Current := StateAbsent\<rparr>, None)
             else
               (let resourceState = resourceState\<lparr>Current := StatePresent\<rparr>
                in case fi of
                     None \<Rightarrow> Panics
                   | Some i \<Rightarrow>
                       if IsDir (mode i)
                         then Returns (resourceState,
                                Some (ErrorString (Path fr @ '' exists, but is not a file'')))
                       else
                         (let resourceState =
                                (if Perm (mode i) \<noteq> FileMode_of (Mode fr)
                                   then resourceState\<lparr>Update := True\<rparr> else resourceState)
                          in case fileOwner w i of
                               Inl err \<Rightarrow> Returns (resourceState, Some err)
                             | Inr own \<Rightarrow>
                                 (let resourceState =
                                        (if Owner fr \<noteq> owner_User own \<or> Group fr \<noteq> owner_Group own
                                           then resourceState\<lparr>Update := True\<rparr>
                                         else resourceState)
                                  in Returns (resourceState, None)))))"

definition FileResource_Create ::
    "FileResource \<Rightarrow> string list \<Rightarrow> Options \<Rightarrow> world \<Rightarrow> string list \<times> world \<times> error option" where
  "FileResource_Create fr out opts w =
     (let out = Printf out (''creating file'' @ [CHR 0x0A])
      in case os_Create w (Path fr) of
           (w, Some err) \<Rightarrow> (out, w, Some err)
         | (w, None) \<Rightarrow>
             (case setFileOwner w (Path fr) (Owner fr) (Group fr) of
                (w, Some err) \<Rightarrow> (out, w, Some err)
              | (w, None) \<Rightarrow>
                  (case os_Chmod w (Path fr) (FileMode_of (Mode fr)) of
                     (w, err) \<Rightarrow> (out, w, err))))"

definition FileResource_Delete ::
    "FileResource \<Rightarrow> string list \<Rightarrow> Options \<Rightarrow> world \<Rightarrow> string list \<times> world \<times> error option" where
  "FileResource_Delete fr out opts w =
     (let out = Printf out (''removing file'' @ [CHR 0x0A])
      in case os_Remove w (Path fr) of (w, err) \<Rightarrow> (out, w, err))"

definition FileResource_Update ::
    "FileResource \<Rightarrow> string list \<Rightarrow> Options \<Rightarrow> world
      \<Rightarrow> (string list \<times> world \<times> error option) outcome" where
  "FileResource_Update fr out opts w =
     (case os_Stat w (Path fr) of
        (fi, Some err) \<Rightarrow> Returns (out, w, Some err)
      | (None, None) \<Rightarrow> Panics
      | (Some fi, None) \<Rightarrow>
          (case (if Perm (mode fi) \<noteq> FileMode_of (Mode fr)
                   then (let out = Printf out (''setting permissions to ''
                                      @ fmt_sharp_o (Mode fr) @ [CHR 0x0A])
                         in case os_Chmod w (Path fr) (FileMode_of (Mode fr)) of
                              (w, err) \<Rightarrow> (out, w, err))
                 else (out, w, None)) of
             (out, w, Some err) \<Rightarrow> Returns (out, w, Some err)
           | (out, w, None) \<Rightarrow>
               (case fileOwner w fi of
                  Inl err \<Rightarrow> Returns (out, w, Some err)
                | Inr own \<Rightarrow>
                    if Owner fr \<noteq> owner_User own \<or> Group fr \<noteq> owner_Group own
                      then (let out = Printf out (''setting owner '' @ Owner fr @ '':''
                                         @ Group fr @ [CHR 0x0A])
                            in case setFileOwner w (Path fr) (Owner fr) (Group fr) of
                                 (w, Some err) \<Rightarrow> Returns (out, w, Some err)
                               | (w, None) \<Rightarrow> Returns (out, w, None))
                    else Returns (out, w, None))))"

subsection \<open>The two halves of Update\<close>

text \<open>
  For the proofs, the body of Update after the stat is cut in two: the permission fix,
  and the ownership fix on the file info taken at the start.
\<close>

definition fix_permissions ::
    "FileResource \<Rightarrow> FileInfo \<Rightarrow> string list \<Rightarrow> world \<Rightarrow> string list \<times> world \<times> error option" where
  "fix_permissions fr fi out w =
     (if Perm (mode fi) \<noteq> FileMode_of (Mode fr)
        then (let out = Printf out (''setting permissions to '' @ fmt_sharp_o (Mode fr) @ [CHR 0x0A])
              in case os_Chmod w (Path fr) (FileMode_of (Mode fr)) of
                   (w, err) \<Rightarrow> (out, w, err))
      else (out, w, None))"

definition fix_ownership ::
    "FileResource \<Rightarrow> FileInfo \<Rightarrow> string list \<Rightarrow> world \<Rightarrow> string list \<times> world \<times> error option" where
  "fix_ownership fr fi out w =
     (case fileOwner w fi of
        Inl err \<Rightarrow> (out, w, Some err)
      | Inr own \<Rightarrow>
          if Owner fr \<noteq> owner_User own \<or> Group fr \<noteq> owner_Group own
            then (let out = Printf out (''setting owner '' @ Owner fr @ '':'' @ Group fr @ [CHR 0x0A])
                  in case setFileOwner w (Path fr) (Owner fr) (Group fr) of
                       (w, err) \<Rightarrow> (out, w, err))
          else (out, w, None))"

subsection \<open>Reading the result of Evaluate\<close>

definition update_flag :: "(State \<times> error option) outcome \<Rightarrow> bool option" where
  "update_flag r = (case r of Returns (st, err) \<Rightarrow> Some (Update st) | Panics \<Rightarrow> None)"

text \<open>Whether the owner names of a node differ from the declared ones, when they resolve.\<close>

definition ownershipDiffers :: "world \<Rightarrow> FileResource \<Rightarrow> fnode \<Rightarrow> bool" where
  "ownershipDiffers w fr n =
     (case fileOwner w n of
        Inl err \<Rightarrow> False
      | Inr own \<Rightarrow> Owner fr \<noteq> owner_User own \<or> Group fr \<noteq> owner_Group own)"



text \<open>
  The overlay the constructor computes, field by field: the declared value when the
  field is present and not the zero value of its type, the baseline value otherwise.
\<close>

definition overlay :: "'a \<Rightarrow> 'a \<Rightarrow> 'a option \<Rightarrow> 'a" where
  "overlay zero base v = (case v of None \<Rightarrow> base | Some x \<Rightarrow> if x = zero then base else x)"

section \<open>An example machine\<close>

text \<open>
  A machine with two users. The process runs as alice (uid 1000, group staff, gid 50,
  umask 022, no directory refuses an entry). \<^verbatim>\<open>/tmp/a\<close> is an empty file of alice with mode 0644, \<^verbatim>\<open>/tmp/d\<close> a
  directory with mode 0755, \<^verbatim>\<open>/site/data/a.txt\<close> a file with other content, and
  \<^verbatim>\<open>/root/secret/a\<close> cannot be reached: the directory above it denies the search.
\<close>

definition ex_fs :: "string \<Rightarrow> fs_entry" where
  "ex_fs = (\<lambda>p. Vacant)
     (''/tmp/a'' := Entry \<lparr>mode = 420, uid = 1000, gid = 50, md5 = md5_empty\<rparr>,
      ''/site/data/a.txt'' := Entry \<lparr>mode = 420, uid = 1000, gid = 50,
          md5 = ''b1946ac92492d2347c6235b8d2611184''\<rparr>,
      ''/tmp/d'' := Entry \<lparr>mode = ModeDir OR 493, uid = 1000, gid = 50, md5 = []\<rparr>,
      ''/root/secret/a'' := Blocked EACCES)"

definition ex_world :: world where
  "ex_world = \<lparr>fs = ex_fs, dir_refuses = (\<lambda>p. None), passwd = [(''root'', 0, 0), (''alice'', 1000, 50)],
     groups = [(''root'', 0), (''staff'', 50)], proc_uid = 1000, proc_gid = 50,
     proc_groups = [50], umask = 18\<rparr>"

text \<open>The same machine with the process running as root.\<close>

definition ex_root_world :: world where
  "ex_root_world = ex_world\<lparr>proc_uid := 0, proc_gid := 0, proc_groups := [0]\<rparr>"

definition ex_fr :: FileResource where
  "ex_fr = \<lparr>Title = ''/tmp/a'', Type = ''file'', State = StatePresent, Path = ''/tmp/a'',
     Mode = 420, Owner = ''alice'', Group = ''staff'', Source = ''a.txt'',
     dstFile = Some ''/tmp/a''\<rparr>"

definition ex_dry :: Options where
  "ex_dry = \<lparr>DryRun = True\<rparr>"

text \<open>A resource that asks for mode 0600 and for root as owner and group.\<close>

definition ex_fr_root :: FileResource where
  "ex_fr_root = ex_fr\<lparr>Mode := 384, Owner := ''root'', Group := ''root''\<rparr>"

text \<open>A declaration that sets the mode to 0600 and leaves everything else out.\<close>

definition ex_decl :: decl where
  "ex_decl = \<lparr>d_title = None, d_type = None, d_state = None, d_path = None,
     d_mode = Some 384, d_owner = None, d_group = None, d_source = None\<rparr>"

text \<open>A declaration that sets the mode to zero and the owner to the empty string.\<close>

definition ex_decl_zero :: decl where
  "ex_decl_zero = ex_decl\<lparr>d_mode := Some 0, d_owner := Some []\<rparr>"

lemmas ex_defs = ex_fr_def ex_world_def ex_root_world_def ex_fs_def ex_dry_def
  ex_fr_root_def ex_decl_def ex_decl_zero_def

section \<open>Evaluate\<close>

lemma os_Stat_Entry: "fs w p = Entry n \<Longrightarrow> os_Stat w p = (Some n, None)"
  by (simp add: os_Stat_def)

lemma os_Stat_absent:
  "fs w p = Vacant \<or> fs w p = Blocked ENOENT \<Longrightarrow>
     os_Stat w p = (None, Some (PathError ''stat'' p ENOENT))"
  by (auto simp: os_Stat_def)

text \<open>
  C5. When the path of a file resource does not exist (nothing is there, or a directory
  above it is missing), Evaluate returns Current = absent, Want = the declared state and
  Update = false, with no error.
\<close>

theorem Evaluate_absent_is_no_error:
  assumes "fs w (Path fr) = Vacant \<or> fs w (Path fr) = Blocked ENOENT"
  shows "FileResource_Evaluate fr out opts w =
           Returns (\<lparr>Current = StateAbsent, Want = State fr, Update = False\<rparr>, None)"
  using os_Stat_absent [OF assms] by (simp add: FileResource_Evaluate_def)

theorem Evaluate_absent_is_no_error_witness:
  "(fs ex_world (Path (ex_fr\<lparr>Path := ''/tmp/b''\<rparr>)) = Vacant
      \<or> fs ex_world (Path (ex_fr\<lparr>Path := ''/tmp/b''\<rparr>)) = Blocked ENOENT)
   \<and> FileResource_Evaluate (ex_fr\<lparr>Path := ''/tmp/b''\<rparr>) [] ex_dry ex_world =
       Returns (\<lparr>Current = StateAbsent, Want = StatePresent, Update = False\<rparr>, None)"
proof -
  have h: "fs ex_world (Path (ex_fr\<lparr>Path := ''/tmp/b''\<rparr>)) = Vacant
      \<or> fs ex_world (Path (ex_fr\<lparr>Path := ''/tmp/b''\<rparr>)) = Blocked ENOENT"
    by (simp add: ex_defs)
  show ?thesis
    using h Evaluate_absent_is_no_error [OF h, of "[]" ex_dry] by (simp add: ex_fr_def)
qed

text \<open>
  C6. When the path exists but is a directory, Evaluate returns an error together with a
  result whose Current is present; the Update flag stays false whatever the mode and the
  owner of the directory are, so no attribute is checked.
\<close>

theorem Evaluate_directory_is_error:
  assumes "fs w (Path fr) = Entry n" and "IsDir (mode n)"
  shows "FileResource_Evaluate fr out opts w =
           Returns (\<lparr>Current = StatePresent, Want = State fr, Update = False\<rparr>,
                    Some (ErrorString (Path fr @ '' exists, but is not a file'')))"
  using assms by (simp add: FileResource_Evaluate_def os_Stat_Entry)

theorem Evaluate_directory_is_error_witness:
  "fs ex_world (Path (ex_fr\<lparr>Path := ''/tmp/d''\<rparr>))
      = Entry \<lparr>mode = ModeDir OR 493, uid = 1000, gid = 50, md5 = []\<rparr>
   \<and> IsDir (mode \<lparr>mode = ModeDir OR 493, uid = 1000, gid = 50, md5 = []\<rparr>)
   \<and> FileResource_Evaluate (ex_fr\<lparr>Path := ''/tmp/d''\<rparr>) [] ex_dry ex_world =
       Returns (\<lparr>Current = StatePresent, Want = StatePresent, Update = False\<rparr>,
                Some (ErrorString ''/tmp/d exists, but is not a file''))"
proof -
  have h1: "fs ex_world (Path (ex_fr\<lparr>Path := ''/tmp/d''\<rparr>))
      = Entry \<lparr>mode = ModeDir OR 493, uid = 1000, gid = 50, md5 = []\<rparr>"
    by (simp add: ex_defs)
  have h2: "IsDir (mode \<lparr>mode = ModeDir OR 493, uid = 1000, gid = 50, md5 = []\<rparr>)"
    by (simp add: IsDir_def ModeDir_def)
  show ?thesis
    using h1 h2 Evaluate_directory_is_error [OF h1 h2, of "[]" ex_dry]
    by (simp add: ex_fr_def)
qed

text \<open>
  C10. Evaluate tests the error of \<^verbatim>\<open>os.Stat\<close> only with \<^verbatim>\<open>os.IsNotExist\<close>. When the
  stat fails for another reason (permission denied on a directory above, say) the file
  info is nil and the call \<^verbatim>\<open>fi.IsDir()\<close> panics: Evaluate does not return.
\<close>

theorem Evaluate_panics_on_other_stat_error:
  assumes "fs w (Path fr) = Blocked e" and "e \<noteq> ENOENT"
  shows "FileResource_Evaluate fr out opts w = Panics"
  using assms by (cases e) (simp_all add: FileResource_Evaluate_def os_Stat_def)

theorem Evaluate_panics_on_other_stat_error_witness:
  "fs ex_world (Path (ex_fr\<lparr>Path := ''/root/secret/a''\<rparr>)) = Blocked EACCES
   \<and> EACCES \<noteq> ENOENT
   \<and> FileResource_Evaluate (ex_fr\<lparr>Path := ''/root/secret/a''\<rparr>) [] ex_dry ex_world = Panics"
proof -
  have h: "fs ex_world (Path (ex_fr\<lparr>Path := ''/root/secret/a''\<rparr>)) = Blocked EACCES"
    by (simp add: ex_defs)
  show ?thesis
    using h Evaluate_panics_on_other_stat_error [OF h, of "[]" ex_dry] by simp
qed

text \<open>What Evaluate returns for a regular file, by the outcome of the owner lookup.\<close>

lemma Evaluate_regular_file:
  assumes "fs w (Path fr) = Entry n" and "\<not> IsDir (mode n)"
  shows "FileResource_Evaluate fr out opts w =
           (case fileOwner w n of
              Inl err \<Rightarrow>
                Returns (\<lparr>Current = StatePresent, Want = State fr,
                           Update = (Perm (mode n) \<noteq> FileMode_of (Mode fr))\<rparr>, Some err)
            | Inr own \<Rightarrow>
                Returns (\<lparr>Current = StatePresent, Want = State fr,
                           Update = (Perm (mode n) \<noteq> FileMode_of (Mode fr)
                                     \<or> Owner fr \<noteq> owner_User own
                                     \<or> Group fr \<noteq> owner_Group own)\<rparr>, None))"
  using assms
  by (auto simp: FileResource_Evaluate_def os_Stat_Entry Let_def split: sum.splits)

text \<open>
  C7. For a path that is a regular file, the permission part of the Update flag is the
  exact inequality between the low nine bits of the actual mode and the declared mode,
  taken as it is: no mask is applied to the declared mode and no subset test is made. The
  comparator \<^verbatim>\<open>permissionsChanged\<close> computes the same inequality. Declared 0640 against
  actual 0644 sets Update, declared 0644 against actual 0644 does not (the witness).
\<close>

theorem permission_check_is_exact:
  assumes "fs w (Path fr) = Entry n" and "\<not> IsDir (mode n)"
  shows "update_flag (FileResource_Evaluate fr out opts w) =
           Some (mode n AND 511 \<noteq> ucast (Mode fr) \<or> ownershipDiffers w fr n)
         \<and> permissionsChanged (fr\<lparr>dstFile := Some (Path fr)\<rparr>) w =
             Returns (mode n AND 511 \<noteq> ucast (Mode fr), None)"
proof
  show "update_flag (FileResource_Evaluate fr out opts w) =
          Some (mode n AND 511 \<noteq> ucast (Mode fr) \<or> ownershipDiffers w fr n)"
    by (auto simp: Evaluate_regular_file [OF assms] update_flag_def ownershipDiffers_def
        Perm_def ModePerm_def FileMode_of_def split: sum.splits)
  show "permissionsChanged (fr\<lparr>dstFile := Some (Path fr)\<rparr>) w =
          Returns (mode n AND 511 \<noteq> ucast (Mode fr), None)"
    using assms(1)
    by (simp add: permissionsChanged_def FileUtil_Mode_def Perm_def ModePerm_def FileMode_of_def)
qed

theorem permission_check_is_exact_witness:
  "fs ex_world ''/tmp/a'' = Entry \<lparr>mode = 420, uid = 1000, gid = 50, md5 = md5_empty\<rparr>
   \<and> \<not> IsDir (mode \<lparr>mode = 420, uid = 1000, gid = 50, md5 = md5_empty\<rparr>)
   \<and> update_flag (FileResource_Evaluate (ex_fr\<lparr>Mode := 416\<rparr>) [] ex_dry ex_world) = Some True
   \<and> update_flag (FileResource_Evaluate ex_fr [] ex_dry ex_world) = Some False
   \<and> permissionsChanged (ex_fr\<lparr>Mode := 416\<rparr>) ex_world = Returns (True, None)
   \<and> permissionsChanged ex_fr ex_world = Returns (False, None)"
proof -
  let ?n = "\<lparr>mode = 420, uid = 1000, gid = 50, md5 = md5_empty\<rparr>"
  have h1: "fs ex_world (Path (ex_fr\<lparr>Mode := 416\<rparr>)) = Entry ?n"
    and h1': "fs ex_world (Path ex_fr) = Entry ?n"
    by (simp_all add: ex_defs)
  have h2: "\<not> IsDir (mode ?n)"
    by (simp add: IsDir_def ModeDir_def)
  have o: "\<not> ownershipDiffers ex_world (ex_fr\<lparr>Mode := 416\<rparr>) ?n"
    "\<not> ownershipDiffers ex_world ex_fr ?n"
    by (simp_all add: ownershipDiffers_def fileOwner_def ex_defs)
  have p: "Path ex_fr = ''/tmp/a''" "Mode ex_fr = 420"
    "ex_fr\<lparr>dstFile := Some ''/tmp/a''\<rparr> = ex_fr"
    "ex_fr\<lparr>Mode := 416, dstFile := Some ''/tmp/a''\<rparr> = ex_fr\<lparr>Mode := 416\<rparr>"
    by (simp_all add: ex_fr_def)
  show ?thesis
    using h1' h2 o p
      permission_check_is_exact [OF h1 h2, of "[]" ex_dry]
      permission_check_is_exact [OF h1' h2, of "[]" ex_dry]
    by simp
qed

text \<open>
  C1 fails as stated: Evaluate never looks at Source or at a checksum. On the example
  machine the resource names a source whose digest differs from the destination's (the
  content comparator reports a change), the mode and the owner match, and Evaluate
  returns Update = false.
\<close>

theorem Evaluate_skips_content_counterexample:
  "Source ex_fr = ''a.txt''
   \<and> contentChanged ex_fr ''/site'' ex_world = Returns (True, None)
   \<and> FileResource_Evaluate ex_fr [] ex_dry ex_world =
       Returns (\<lparr>Current = StatePresent, Want = StatePresent, Update = False\<rparr>, None)"
proof (intro conjI)
  show "Source ex_fr = ''a.txt''"
    by (simp add: ex_fr_def)
  show "contentChanged ex_fr ''/site'' ex_world = Returns (True, None)"
    by (simp add: contentChanged_def ex_defs filepath_Join_def filepath_Clean_def
        NewFileUtil_def FileUtil_Md5_def md5_empty_def IsDir_def ModeDir_def)
  show "FileResource_Evaluate ex_fr [] ex_dry ex_world =
       Returns (\<lparr>Current = StatePresent, Want = StatePresent, Update = False\<rparr>, None)"
    by (simp add: FileResource_Evaluate_def ex_defs os_Stat_def IsDir_def ModeDir_def
        Perm_def ModePerm_def FileMode_of_def fileOwner_def)
qed

text \<open>
  C1 as amended: for a path that is a regular file whose owner and group resolve to
  names, Evaluate returns without error and sets Update exactly when the permission bits,
  the owner name or the group name differ from the declared ones. Source, the
  destination handle and the content digest of the file play no part in the result.
\<close>

theorem Evaluate_update_iff_mode_or_owner_differs:
  assumes "fs w (Path fr) = Entry n" and "\<not> IsDir (mode n)" and "fileOwner w n = Inr own"
  shows "FileResource_Evaluate fr out opts w =
           Returns (\<lparr>Current = StatePresent, Want = State fr,
                      Update = (Perm (mode n) \<noteq> FileMode_of (Mode fr)
                                \<or> Owner fr \<noteq> owner_User own
                                \<or> Group fr \<noteq> owner_Group own)\<rparr>, None)
         \<and> FileResource_Evaluate (fr\<lparr>Source := src, dstFile := d\<rparr>) out opts w =
             FileResource_Evaluate fr out opts w
         \<and> FileResource_Evaluate fr out opts
               (w\<lparr>fs := (fs w)(Path fr := Entry (n\<lparr>md5 := c\<rparr>))\<rparr>) =
             FileResource_Evaluate fr out opts w"
proof (intro conjI)
  show "FileResource_Evaluate fr out opts w =
           Returns (\<lparr>Current = StatePresent, Want = State fr,
                      Update = (Perm (mode n) \<noteq> FileMode_of (Mode fr)
                                \<or> Owner fr \<noteq> owner_User own
                                \<or> Group fr \<noteq> owner_Group own)\<rparr>, None)"
    by (simp add: Evaluate_regular_file [OF assms(1,2)] assms(3))
  have "fs w (Path (fr\<lparr>Source := src, dstFile := d\<rparr>)) = Entry n"
    using assms(1) by simp
  from Evaluate_regular_file [OF this assms(2)]
  show "FileResource_Evaluate (fr\<lparr>Source := src, dstFile := d\<rparr>) out opts w =
          FileResource_Evaluate fr out opts w"
    by (simp add: Evaluate_regular_file [OF assms(1,2)] assms(3))
  let ?w = "w\<lparr>fs := (fs w)(Path fr := Entry (n\<lparr>md5 := c\<rparr>))\<rparr>"
  have e: "fs ?w (Path fr) = Entry (n\<lparr>md5 := c\<rparr>)" and d: "\<not> IsDir (mode (n\<lparr>md5 := c\<rparr>))"
    using assms(2) by simp_all
  have "fileOwner ?w (n\<lparr>md5 := c\<rparr>) = fileOwner w n"
    by (simp add: fileOwner_def split: option.splits)
  then show "FileResource_Evaluate fr out opts ?w = FileResource_Evaluate fr out opts w"
    by (simp add: Evaluate_regular_file [OF e d] Evaluate_regular_file [OF assms(1,2)] assms(3))
qed

theorem Evaluate_update_iff_mode_or_owner_differs_witness:
  "fs ex_world (Path (ex_fr\<lparr>Group := ''root''\<rparr>))
       = Entry \<lparr>mode = 420, uid = 1000, gid = 50, md5 = md5_empty\<rparr>
   \<and> \<not> IsDir (mode \<lparr>mode = 420, uid = 1000, gid = 50, md5 = md5_empty\<rparr>)
   \<and> fileOwner ex_world \<lparr>mode = 420, uid = 1000, gid = 50, md5 = md5_empty\<rparr>
       = Inr \<lparr>owner_User = ''alice'', owner_Group = ''staff''\<rparr>
   \<and> FileResource_Evaluate (ex_fr\<lparr>Group := ''root''\<rparr>) [] ex_dry ex_world =
       Returns (\<lparr>Current = StatePresent, Want = StatePresent, Update = True\<rparr>, None)"
proof -
  let ?n = "\<lparr>mode = 420, uid = 1000, gid = 50, md5 = md5_empty\<rparr>"
  have h1: "fs ex_world (Path (ex_fr\<lparr>Group := ''root''\<rparr>)) = Entry ?n"
    by (simp add: ex_defs)
  have h2: "\<not> IsDir (mode ?n)"
    by (simp add: IsDir_def ModeDir_def)
  have h3: "fileOwner ex_world ?n = Inr \<lparr>owner_User = ''alice'', owner_Group = ''staff''\<rparr>"
    by (simp add: fileOwner_def ex_defs)
  show ?thesis
    using h1 h2 h3 Evaluate_update_iff_mode_or_owner_differs [OF h1 h2 h3, of "[]" ex_dry]
    by (simp add: ex_fr_def)
qed

section \<open>Delete\<close>

text \<open>
  C4. Delete calls \<^verbatim>\<open>os.Remove\<close> whatever the state of the path: its world and error
  are those of the removal. On a path that does not exist it leaves the world as it
  is and returns the not-found error of the operating system.
\<close>

theorem Delete_absent_returns_not_found:
  "snd (FileResource_Delete fr out opts w) = os_Remove w (Path fr)
   \<and> (fs w (Path fr) = Vacant \<or> fs w (Path fr) = Blocked ENOENT \<longrightarrow>
        FileResource_Delete fr out opts w =
          (out @ [''removing file'' @ [CHR 0x0A]], w,
           Some (PathError ''remove'' (Path fr) ENOENT))
        \<and> IsNotExist (snd (snd (FileResource_Delete fr out opts w))))"
  by (auto simp: FileResource_Delete_def os_Remove_def Printf_def split: prod.splits)

theorem Delete_absent_returns_not_found_witness:
  "(fs ex_world (Path (ex_fr\<lparr>Path := ''/tmp/b''\<rparr>)) = Vacant
      \<or> fs ex_world (Path (ex_fr\<lparr>Path := ''/tmp/b''\<rparr>)) = Blocked ENOENT)
   \<and> FileResource_Delete (ex_fr\<lparr>Path := ''/tmp/b''\<rparr>) [] ex_dry ex_world =
       ([''removing file'' @ [CHR 0x0A]], ex_world,
        Some (PathError ''remove'' ''/tmp/b'' ENOENT))"
proof -
  have h: "fs ex_world (Path (ex_fr\<lparr>Path := ''/tmp/b''\<rparr>)) = Vacant
      \<or> fs ex_world (Path (ex_fr\<lparr>Path := ''/tmp/b''\<rparr>)) = Blocked ENOENT"
    by (simp add: ex_defs)
  show ?thesis
    using h Delete_absent_returns_not_found [of "ex_fr\<lparr>Path := ''/tmp/b''\<rparr>" "[]" ex_dry ex_world]
    by (simp add: ex_fr_def)
qed

section \<open>Update\<close>

subsection \<open>What chmod leaves alone\<close>














subsection \<open>The effect of each step\<close>










subsection \<open>The whole of Update\<close>

lemma Update_after_stat:
  assumes "fs w (Path fr) = Entry n"
  shows "FileResource_Update fr out opts w =
           (case fix_permissions fr n out w of
              (out1, w1, Some err) \<Rightarrow> Returns (out1, w1, Some err)
            | (out1, w1, None) \<Rightarrow> Returns (fix_ownership fr n out1 w1))"
proof -
  have "(case fix_ownership fr n out1 w1 of (out2, w2, e2) \<Rightarrow> Returns (out2, w2, e2))
          = Returns (fix_ownership fr n out1 w1)" for out1 w1
    by (simp split: prod.splits)
  then show ?thesis
    unfolding FileResource_Update_def os_Stat_Entry [OF assms] fix_permissions_def [symmetric]
    by (auto simp: fix_ownership_def Let_def split: prod.splits option.splits sum.splits)
qed



text \<open>
  C8. At the fixed point, where the path is a regular file whose permission bits equal
  the declared mode and whose owner and group names equal the declared ones, Evaluate
  reports present with Update = false, and Update returns no error, writes no message
  and leaves the world as it is.
\<close>

theorem Update_is_noop_at_fixed_point:
  assumes "fs w (Path fr) = Entry n" and "\<not> IsDir (mode n)"
    and "Perm (mode n) = FileMode_of (Mode fr)"
    and "fileOwner w n = Inr \<lparr>owner_User = Owner fr, owner_Group = Group fr\<rparr>"
  shows "FileResource_Evaluate fr out opts w =
           Returns (\<lparr>Current = StatePresent, Want = State fr, Update = False\<rparr>, None)
         \<and> FileResource_Update fr out opts w = Returns (out, w, None)"
proof
  show "FileResource_Evaluate fr out opts w =
          Returns (\<lparr>Current = StatePresent, Want = State fr, Update = False\<rparr>, None)"
    by (simp add: Evaluate_regular_file [OF assms(1,2)] assms(3,4))
  show "FileResource_Update fr out opts w = Returns (out, w, None)"
    by (simp add: Update_after_stat [OF assms(1)] fix_permissions_def fix_ownership_def assms(3,4))
qed

theorem Update_is_noop_at_fixed_point_witness:
  "fs ex_world (Path ex_fr) = Entry \<lparr>mode = 420, uid = 1000, gid = 50, md5 = md5_empty\<rparr>
   \<and> \<not> IsDir (mode \<lparr>mode = 420, uid = 1000, gid = 50, md5 = md5_empty\<rparr>)
   \<and> Perm (mode \<lparr>mode = 420, uid = 1000, gid = 50, md5 = md5_empty\<rparr>) = FileMode_of (Mode ex_fr)
   \<and> fileOwner ex_world \<lparr>mode = 420, uid = 1000, gid = 50, md5 = md5_empty\<rparr>
       = Inr \<lparr>owner_User = Owner ex_fr, owner_Group = Group ex_fr\<rparr>
   \<and> FileResource_Update ex_fr [] ex_dry ex_world = Returns ([], ex_world, None)"
proof -
  let ?n = "\<lparr>mode = 420, uid = 1000, gid = 50, md5 = md5_empty\<rparr>"
  have h1: "fs ex_world (Path ex_fr) = Entry ?n"
    by (simp add: ex_defs)
  have h2: "\<not> IsDir (mode ?n)"
    by (simp add: IsDir_def ModeDir_def)
  have h3: "Perm (mode ?n) = FileMode_of (Mode ex_fr)"
    by (simp add: Perm_def ModePerm_def FileMode_of_def ex_fr_def)
  have h4: "fileOwner ex_world ?n = Inr \<lparr>owner_User = Owner ex_fr, owner_Group = Group ex_fr\<rparr>"
    by (simp add: fileOwner_def ex_defs)
  show ?thesis
    using h1 h2 h3 h4 Update_is_noop_at_fixed_point [OF h1 h2 h3 h4, of "[]" ex_dry]
    by simp
qed

section \<open>The options\<close>

text \<open>
  C2 fails as stated: no method reads the options. With the dry-run flag set, on the
  example machine, Delete removes the file, Create makes a new one and Update changes
  the mode.
\<close>

theorem dry_run_mutates_counterexample:
  "DryRun ex_dry
   \<and> fs ex_world ''/tmp/a'' = Entry \<lparr>mode = 420, uid = 1000, gid = 50, md5 = md5_empty\<rparr>
   \<and> FileResource_Delete ex_fr [] ex_dry ex_world =
       ([''removing file'' @ [CHR 0x0A]],
        ex_world\<lparr>fs := ex_fs(''/tmp/a'' := Vacant)\<rparr>, None)
   \<and> fs ex_world ''/tmp/b'' = Vacant
   \<and> FileResource_Create (ex_fr\<lparr>Path := ''/tmp/b''\<rparr>) [] ex_dry ex_world =
       ([''creating file'' @ [CHR 0x0A]],
        ex_world\<lparr>fs := ex_fs(''/tmp/b'' :=
           Entry \<lparr>mode = 420, uid = 1000, gid = 50, md5 = md5_empty\<rparr>)\<rparr>, None)
   \<and> FileResource_Update (ex_fr\<lparr>Mode := 416\<rparr>) [] ex_dry ex_world =
       Returns ([''setting permissions to 0640'' @ [CHR 0x0A]],
                ex_world\<lparr>fs := ex_fs(''/tmp/a'' :=
                   Entry \<lparr>mode = 416, uid = 1000, gid = 50, md5 = md5_empty\<rparr>)\<rparr>, None)"
proof (intro conjI)
  show "DryRun ex_dry"
    by (simp add: ex_dry_def)
  show "fs ex_world ''/tmp/a'' = Entry \<lparr>mode = 420, uid = 1000, gid = 50, md5 = md5_empty\<rparr>"
    by (simp add: ex_defs)
  show "FileResource_Delete ex_fr [] ex_dry ex_world =
       ([''removing file'' @ [CHR 0x0A]],
        ex_world\<lparr>fs := ex_fs(''/tmp/a'' := Vacant)\<rparr>, None)"
    by (simp add: FileResource_Delete_def os_Remove_def Printf_def ex_defs)
  show "fs ex_world ''/tmp/b'' = Vacant"
    by (simp add: ex_defs)
  show "FileResource_Create (ex_fr\<lparr>Path := ''/tmp/b''\<rparr>) [] ex_dry ex_world =
       ([''creating file'' @ [CHR 0x0A]],
        ex_world\<lparr>fs := ex_fs(''/tmp/b'' :=
           Entry \<lparr>mode = 420, uid = 1000, gid = 50, md5 = md5_empty\<rparr>)\<rparr>, None)"
    by (simp add: FileResource_Create_def os_Create_def Printf_def setFileOwner_def
        os_Chown_def chown_mode_def IsDir_def ModeDir_def os_Chmod_def may_change_def
        FileMode_of_def chmodMask_def ModePerm_def ModeSetuid_def ModeSetgid_def
        ModeSticky_def ex_defs)
  show "FileResource_Update (ex_fr\<lparr>Mode := 416\<rparr>) [] ex_dry ex_world =
       Returns ([''setting permissions to 0640'' @ [CHR 0x0A]],
                ex_world\<lparr>fs := ex_fs(''/tmp/a'' :=
                   Entry \<lparr>mode = 416, uid = 1000, gid = 50, md5 = md5_empty\<rparr>)\<rparr>, None)"
    by (simp add: FileResource_Update_def os_Stat_def fix_permissions_def fix_ownership_def
        Printf_def fmt_sharp_o_def oct_digits.simps Perm_def ModePerm_def FileMode_of_def
        os_Chmod_def may_change_def chmodMask_def ModeSetuid_def ModeSetgid_def ModeSticky_def
        fileOwner_def ex_defs)
qed

text \<open>
  C2 as amended: Create, Update and Delete do not consult the options. Whatever the
  options are, the dry-run flag set or not, each writes the same messages, leaves the
  same world and returns the same error.
\<close>

theorem methods_ignore_options:
  "FileResource_Create fr out opts w = FileResource_Create fr out opts' w
   \<and> FileResource_Update fr out opts w = FileResource_Update fr out opts' w
   \<and> FileResource_Delete fr out opts w = FileResource_Delete fr out opts' w"
  by (simp add: FileResource_Create_def FileResource_Update_def FileResource_Delete_def)

theorem methods_ignore_options_witness:
  "FileResource_Create ex_fr [] \<lparr>DryRun = True\<rparr> ex_world
     = FileResource_Create ex_fr [] \<lparr>DryRun = False\<rparr> ex_world
   \<and> FileResource_Update ex_fr [] \<lparr>DryRun = True\<rparr> ex_world
     = FileResource_Update ex_fr [] \<lparr>DryRun = False\<rparr> ex_world
   \<and> FileResource_Delete ex_fr [] \<lparr>DryRun = True\<rparr> ex_world
     = FileResource_Delete ex_fr [] \<lparr>DryRun = False\<rparr> ex_world"
  using methods_ignore_options [of ex_fr "[]" "\<lparr>DryRun = True\<rparr>" ex_world "\<lparr>DryRun = False\<rparr>"]
  by simp

section \<open>Construction\<close>

text \<open>
  C3 fails as stated in its last part: the merge cannot tell a field declared with the
  zero value from an absent one. A declaration that sets the mode to zero and the owner
  to the empty string yields a resource with mode 0644 and the current user as owner.
\<close>

theorem NewFileResource_zero_value_counterexample:
  "d_mode ex_decl_zero = Some 0 \<and> d_owner ex_decl_zero = Some []
   \<and> NewFileResource ex_world ''/tmp/x'' (Fields ex_decl_zero) =
       Inr \<lparr>Title = ''/tmp/x'', Type = ''file'', State = StatePresent, Path = ''/tmp/x'',
            Mode = 420, Owner = ''alice'', Group = ''staff'', Source = [], dstFile = None\<rparr>"
  by (simp add: NewFileResource_def user_Current_def user_LookupGroupId_def
      hcl_DecodeObject_def or_zero_def mergo_Merge_def merge_string_def merge_int_def
      fileResourceType_def ex_defs)

lemma merge_string_or_zero: "merge_string (or_zero [] v) b = overlay [] b v"
  by (simp add: merge_string_def or_zero_def overlay_def split: option.splits)

lemma merge_int_or_zero: "merge_int (or_zero 0 v) b = overlay 0 b v"
  by (simp add: merge_int_def or_zero_def overlay_def split: option.splits)

text \<open>
  C3 as amended: when the current user and its primary group resolve, the constructor
  builds the baseline (Path = title, Mode = 0644, state present, Owner = current user,
  Group = that user's primary group, Title = title, Type = file) and returns a resource
  in which every field that the declaration gives a value other than the zero value of
  its type (the empty string, mode zero) has the declared value, and every field that
  is absent from the declaration or declared with the zero value has the baseline value.
\<close>

theorem NewFileResource_overlays_nonzero_fields:
  assumes "user_Current w = Inr cu" and "user_LookupGroupId w (Gid cu) = Inr g"
  shows "NewFileResource w title (Fields d) =
           Inr \<lparr>Title = overlay [] title (d_title d),
                Type = overlay [] fileResourceType (d_type d),
                State = overlay [] StatePresent (d_state d),
                Path = overlay [] title (d_path d),
                Mode = overlay 0 420 (d_mode d),
                Owner = overlay [] (Username cu) (d_owner d),
                Group = overlay [] g (d_group d),
                Source = overlay [] [] (d_source d),
                dstFile = None\<rparr>"
  using assms
  by (simp add: NewFileResource_def hcl_DecodeObject_def mergo_Merge_def
      merge_string_or_zero merge_int_or_zero)

theorem NewFileResource_overlays_nonzero_fields_witness:
  "user_Current ex_world = Inr \<lparr>Username = ''alice'', Uid = 1000, Gid = 50\<rparr>
   \<and> user_LookupGroupId ex_world (Gid \<lparr>Username = ''alice'', Uid = 1000, Gid = 50\<rparr>)
       = Inr ''staff''
   \<and> NewFileResource ex_world ''/tmp/x'' (Fields ex_decl) =
       Inr \<lparr>Title = ''/tmp/x'', Type = ''file'', State = StatePresent, Path = ''/tmp/x'',
            Mode = 384, Owner = ''alice'', Group = ''staff'', Source = [], dstFile = None\<rparr>"
proof -
  let ?u = "\<lparr>Username = ''alice'', Uid = 1000, Gid = 50\<rparr>"
  have h1: "user_Current ex_world = Inr ?u"
    by (simp add: user_Current_def ex_defs)
  have h2: "user_LookupGroupId ex_world (Gid ?u) = Inr ''staff''"
    by (simp add: user_LookupGroupId_def ex_defs)
  show ?thesis
    using h1 h2 NewFileResource_overlays_nonzero_fields [OF h1 h2, of "''/tmp/x''" ex_decl]
    by (simp add: overlay_def fileResourceType_def ex_decl_def)
qed

end
